theory Spec2Isabelle
  imports Complex_Main "HOL-Library.Sublist"
begin

section \<open>The sonar prediction service (app.py)\<close>

text \<open>
  The service is a handful of request handlers over one pickled classifier. Each handler
  is embedded as a pure function of the parsed request and of the module-level
  \<open>model\<close>, returning the pair that the handler returns: the body given to
  \<open>jsonify\<close> and the status code.

  Numbers. A Python float is an IEEE double; its value is a real number, an infinity or
  NaN. The arithmetic on doubles that the handlers perform (a product and a rounding)
  is not exact real arithmetic and is not computed here: see \<open>Times100\<close> and
  \<open>Round2\<close>. An \<open>int\<close> that becomes a float is taken at its exact value.
\<close>

subsection \<open>Values\<close>

datatype pyfloat = Fin real | PInf | NInf | NaN

text \<open>
  What \<open>request.get_json()\<close> returns: the standard library's decoding of the body.
  Integer literals decode to \<open>int\<close>, other numbers to \<open>float\<close> (the decoder
  accepts \<open>NaN\<close> and \<open>Infinity\<close>, and a literal such as \<open>1e999\<close> decodes to
  infinity). An object is kept as its list of items; where a key is repeated the decoder
  keeps the last value, see \<open>dict_get\<close>.
\<close>

datatype json =
    JNull
  | JBool bool
  | JInt int
  | JFloat pyfloat
  | JStr string
  | JArr "json list"
  | JObj "(string \<times> json) list"

text \<open>
  The exceptions that reach the two \<open>except\<close> clauses of \<open>predict\<close>.
  \<open>ValueError\<close> stands for the class and its subclasses, \<open>HTTPException\<close> for
  what \<open>request.get_json()\<close> raises on a body that it cannot decode (it is not a
  \<open>ValueError\<close>), \<open>OtherError\<close> for any exception outside the named classes.
\<close>

datatype exn =
  ValueError | TypeError | OverflowError | IndexError | KeyError | HTTPException | OtherError

text \<open>
  A message is either a literal of the source or \<open>str(e)\<close> of a caught exception,
  whose text belongs to the library that raised it.
\<close>

datatype msg = Text string | Str_of_exn exn

text \<open>A class label as the classifier returns it; the bundled data set uses strings.\<close>

datatype label = Str_label string | Int_label int

text \<open>
  The two confidences are computed by the runtime on doubles: \<open>float(p) * 100\<close> is
  the double nearest to the product, and \<open>round(x, 2)\<close> the double nearest to the
  decimal that \<open>x\<close> rounds to. They are kept as the expressions that the source
  evaluates: \<open>Times100 p\<close> stands for \<open>float(p) * 100\<close> and \<open>Round2 x\<close> for
  \<open>round(x, 2)\<close>. No numeric value is given to them.
\<close>

datatype product = Times100 pyfloat

datatype rounded = Round2 product

text \<open>A Unicode string as a list of code points: the path parameter of \<open>get_sample\<close>.\<close>

type_synonym pystr = "nat list"

record prediction_result =
  prediction :: string
  prediction_label :: string
  confidence_rock :: rounded
  confidence_mine :: rounded
  message :: string

text \<open>
  The bodies that the handlers give to \<open>jsonify\<close>, the page that \<open>home\<close> renders,
  and \<open>Unhandled\<close>: an exception that leaves a handler, which the framework answers.
\<close>

datatype body =
    Error_body string msg
  | Prediction_body prediction_result
  | Sample_body string "real list" string
  | Health_body string bool string
  | Stats_body json
  | Html_body string
  | Unhandled exn

type_synonym response = "body \<times> nat"

text \<open>
  The pickled classifier is opaque: its two methods are parameters. Each takes the
  two-dimensional input (here always one row) and returns an array or raises.
\<close>

record model =
  model_predict :: "pyfloat list list \<Rightarrow> exn + label list"
  model_predict_proba :: "pyfloat list list \<Rightarrow> exn + pyfloat list list"

subsection \<open>Builtins used by the handlers\<close>

definition sum_bind :: "exn + 'a \<Rightarrow> ('a \<Rightarrow> exn + 'b) \<Rightarrow> exn + 'b" where
  "sum_bind r f = (case r of Inl e \<Rightarrow> Inl e | Inr v \<Rightarrow> f v)"

text \<open>Truth value of an object, as \<open>not data\<close> tests it.\<close>

fun falsy :: "json \<Rightarrow> bool" where
  "falsy JNull = True"
| "falsy (JBool b) = (\<not> b)"
| "falsy (JInt i) = (i = 0)"
| "falsy (JFloat f) = (f = Fin 0)"
| "falsy (JStr s) = (s = [])"
| "falsy (JArr xs) = (xs = [])"
| "falsy (JObj kvs) = (kvs = [])"

definition dict_get :: "(string \<times> json) list \<Rightarrow> string \<rightharpoonup> json" where
  "dict_get kvs k = map_of (rev kvs) k"

text \<open>
  \<open>'features' in data\<close>: key membership for a dict, element membership for a list,
  substring test for a string; any other object is not iterable.
\<close>

fun contains_features :: "json \<Rightarrow> exn + bool" where
  "contains_features (JObj kvs) = Inr (dict_get kvs ''features'' \<noteq> None)"
| "contains_features (JArr xs) = Inr (List.member xs (JStr ''features''))"
| "contains_features (JStr s) = Inr (sublist ''features'' s)"
| "contains_features _ = Inl TypeError"

text \<open>\<open>data['features']\<close>: only a dict can be indexed by a string.\<close>

fun getitem_features :: "json \<Rightarrow> exn + json" where
  "getitem_features (JObj kvs) =
     (case dict_get kvs ''features'' of None \<Rightarrow> Inl KeyError | Some v \<Rightarrow> Inr v)"
| "getitem_features _ = Inl TypeError"

fun py_len :: "json \<Rightarrow> exn + nat" where
  "py_len (JArr xs) = Inr (length xs)"
| "py_len (JStr s) = Inr (length s)"
| "py_len (JObj kvs) = Inr (length (remdups (map fst kvs)))"
| "py_len _ = Inl TypeError"

text \<open>Decimal digits of a natural number, as an f-string prints an \<open>int\<close>.\<close>

definition digit :: "nat \<Rightarrow> char" where
  "digit d = ''0123456789'' ! d"

fun str_nat :: "nat \<Rightarrow> string" where
  "str_nat n = (if n < 10 then [digit n] else str_nat (n div 10) @ [digit (n mod 10)])"

declare str_nat.simps [simp del]

definition str_int :: "int \<Rightarrow> string" where
  "str_int i = (if i < 0 then CHR ''-'' # str_nat (nat (- i)) else str_nat (nat i))"

subsection \<open>\<open>np.asarray(features, dtype=float)\<close>\<close>

text \<open>
  An \<open>int\<close> becomes a float unless it is too large: the conversion rounds to the
  nearest double and overflows from \<open>2^1024 - 2^970\<close> on. Below that bound the value
  is kept exact here.
\<close>

definition int_to_float :: "int \<Rightarrow> exn + pyfloat" where
  "int_to_float i =
     (if \<bar>i\<bar> < 2 ^ 1024 - 2 ^ 970 then Inr (Fin (of_int i)) else Inl OverflowError)"

text \<open>
  One element. \<open>None\<close> becomes NaN, a bool 0 or 1, a string is parsed as a float
  literal by the runtime (the parameter \<open>str2f\<close>, \<open>None\<close> where the string is no
  float literal), a dict is refused with \<open>TypeError\<close>.
\<close>

fun to_float :: "(string \<Rightarrow> pyfloat option) \<Rightarrow> json \<Rightarrow> exn + pyfloat" where
  "to_float str2f JNull = Inr NaN"
| "to_float str2f (JBool b) = Inr (Fin (if b then 1 else 0))"
| "to_float str2f (JInt i) = int_to_float i"
| "to_float str2f (JFloat f) = Inr f"
| "to_float str2f (JStr s) = (case str2f s of None \<Rightarrow> Inl ValueError | Some f \<Rightarrow> Inr f)"
| "to_float str2f (JArr xs) = Inl ValueError"
| "to_float str2f (JObj kvs) = Inl TypeError"

text \<open>The elements are converted in order; the first failure is the one raised.\<close>

fun to_floats :: "(string \<Rightarrow> pyfloat option) \<Rightarrow> json list \<Rightarrow> exn + pyfloat list" where
  "to_floats str2f [] = Inr []"
| "to_floats str2f (x # xs) =
     sum_bind (to_float str2f x) (\<lambda>f. sum_bind (to_floats str2f xs) (\<lambda>fs. Inr (f # fs)))"

text \<open>
  Nested lists give a multi-dimensional array when they are rectangular; a ragged
  nesting is refused with \<open>ValueError\<close> before any element is converted.
\<close>

fun shape :: "json \<Rightarrow> nat list option" where
  "shape (JArr []) = Some [0]"
| "shape (JArr (x # xs)) =
     (case shape x of
        None \<Rightarrow> None
      | Some d \<Rightarrow> if list_all (\<lambda>y. shape y = Some d) xs then Some (Suc (length xs) # d) else None)"
| "shape v = Some []"

fun leaves :: "json \<Rightarrow> json list" where
  "leaves (JArr xs) = concat (map leaves xs)"
| "leaves v = [v]"

text \<open>
  The array's data in row-major order. \<open>reshape(1, -1)\<close> then makes it the single row
  of a two-dimensional array, whatever the shape was, and cannot fail.
\<close>

definition asarray :: "(string \<Rightarrow> pyfloat option) \<Rightarrow> json \<Rightarrow> exn + pyfloat list" where
  "asarray str2f v =
     (case shape v of None \<Rightarrow> Inl ValueError | Some d \<Rightarrow> to_floats str2f (leaves v))"

definition reshape_row :: "pyfloat list \<Rightarrow> pyfloat list list" where
  "reshape_row a = [a]"

subsection \<open>Indexing and labels\<close>

definition getitem :: "'a list \<Rightarrow> nat \<Rightarrow> exn + 'a" where
  "getitem xs i = (if i < length xs then Inr (xs ! i) else Inl IndexError)"

definition str_label :: "label \<Rightarrow> string" where
  "str_label l = (case l of Str_label s \<Rightarrow> s | Int_label i \<Rightarrow> str_int i)"

text \<open>\<open>prediction[0] == 'R'\<close>\<close>

definition is_R :: "label \<Rightarrow> bool" where
  "is_R l = (l = Str_label ''R'')"

subsection \<open>\<open>predict\<close>\<close>

definition missing_input :: response where
  "missing_input =
     (Error_body ''No features provided'' (Text ''Please provide 60 sonar readings''), 400)"

definition invalid_length :: "nat \<Rightarrow> response" where
  "invalid_length n =
     (Error_body ''Invalid input length'' (Text (''Expected 60 features, got '' @ str_nat n)), 400)"

definition model_unavailable :: response where
  "model_unavailable =
     (Error_body ''Model not loaded''
        (Text ''Please ensure sonar_model.pkl is in the correct directory''), 500)"

definition non_numeric_input :: response where
  "non_numeric_input =
     (Error_body ''Invalid input values'' (Text ''All features must be numeric values''), 400)"

definition prediction_failed :: "exn \<Rightarrow> response" where
  "prediction_failed e = (Error_body ''Prediction failed'' (Str_of_exn e), 500)"

text \<open>The two \<open>except\<close> clauses, in their order.\<close>

definition except :: "exn \<Rightarrow> response" where
  "except e = (if e = ValueError then non_numeric_input else prediction_failed e)"

definition make_result :: "label \<Rightarrow> product \<Rightarrow> product \<Rightarrow> prediction_result" where
  "make_result p rock_probability mine_probability =
     \<lparr> prediction = str_label p,
       prediction_label = (if is_R p then ''Rock'' else ''Mine''),
       confidence_rock = Round2 rock_probability,
       confidence_mine = Round2 mine_probability,
       message = ''The object is a '' @ (if is_R p then ''Rock'' else ''Mine'') \<rparr>"

text \<open>The part of the \<open>try\<close> block after the model-presence check.\<close>

definition infer :: "model \<Rightarrow> pyfloat list list \<Rightarrow> exn + response" where
  "infer m input_reshaped =
     sum_bind (model_predict m input_reshaped) (\<lambda>prediction.
     sum_bind (model_predict_proba m input_reshaped) (\<lambda>prediction_proba.
     sum_bind (getitem prediction_proba 0) (\<lambda>row.
     sum_bind (getitem row 1) (\<lambda>p1.
     sum_bind (getitem row 0) (\<lambda>p0.
     sum_bind (getitem prediction 0) (\<lambda>p.
       Inr (Prediction_body (make_result p (Times100 p1) (Times100 p0)), 200)))))))"

text \<open>
  The \<open>try\<close> block: \<open>Inl\<close> is an exception that leaves it. Its first statement is
  \<open>request.get_json()\<close>, whose outcome is the handler's input: the decoded body, or
  the exception raised for a body that cannot be decoded.
\<close>

definition predict_try ::
  "(string \<Rightarrow> pyfloat option) \<Rightarrow> model option \<Rightarrow> exn + json \<Rightarrow> exn + response" where
  "predict_try str2f mdl get_json =
     sum_bind get_json (\<lambda>data.
       if falsy data then Inr missing_input
       else
         sum_bind (contains_features data) (\<lambda>present.
           if \<not> present then Inr missing_input
           else
             sum_bind (getitem_features data) (\<lambda>features.
             sum_bind (py_len features) (\<lambda>n.
               if n \<noteq> 60 then Inr (invalid_length n)
               else
                 sum_bind (asarray str2f features) (\<lambda>input_array.
                   case mdl of
                     None \<Rightarrow> Inr model_unavailable
                   | Some m \<Rightarrow> infer m (reshape_row input_array))))))"

definition predict ::
  "(string \<Rightarrow> pyfloat option) \<Rightarrow> model option \<Rightarrow> exn + json \<Rightarrow> response" where
  "predict str2f mdl get_json =
     (case predict_try str2f mdl get_json of Inl e \<Rightarrow> except e | Inr r \<Rightarrow> r)"

subsection \<open>Startup and \<open>health_check\<close>\<close>

text \<open>
  The module opens and unpickles the file once. The outcome is an exception, or the
  unpickled object: a classifier, or \<open>None\<close> when that is what the file holds. The
  global \<open>model\<close> is the object, or \<open>None\<close> after an exception.
\<close>

definition load_model :: "exn + model option \<Rightarrow> model option" where
  "load_model loaded = (case loaded of Inl e \<Rightarrow> None | Inr obj \<Rightarrow> obj)"

definition health_check :: "model option \<Rightarrow> response" where
  "health_check mdl = (Health_body ''healthy'' (mdl \<noteq> None) ''1.0.0'', 200)"

subsection \<open>\<open>get_stats\<close> and \<open>home\<close>\<close>

definition MODEL_STATS :: json where
  "MODEL_STATS = JObj
     [(''training_accuracy'', JFloat (Fin 83.42)),
      (''test_accuracy'', JFloat (Fin 76.19)),
      (''total_samples'', JInt 208),
      (''training_samples'', JInt 187),
      (''test_samples'', JInt 21),
      (''features'', JInt 60),
      (''rock_samples'', JInt 97),
      (''mine_samples'', JInt 111)]"

definition get_stats :: response where
  "get_stats = (Stats_body MODEL_STATS, 200)"

text \<open>
  \<open>home\<close> returns what \<open>render_template\<close> yields, given here as its outcome. The
  handler catches nothing: an exception leaves it and the framework answers with 500.
\<close>

definition home :: "exn + string \<Rightarrow> response" where
  "home rendered = (case rendered of Inl e \<Rightarrow> (Unhandled e, 500) | Inr page \<Rightarrow> (Html_body page, 200))"

subsection \<open>\<open>get_sample\<close>\<close>

text \<open>
  The path parameter is any Unicode string. \<open>str.lower()\<close> follows the Unicode case
  mappings of the runtime, which are not reproduced here: it is the parameter \<open>lower\<close>
  of the handler. The literals of the source are ASCII; \<open>code_points\<close> gives their code
  points.
\<close>

definition code_points :: "string \<Rightarrow> pystr" where
  "code_points s = map of_char s"

definition rock_sample :: "real list" where
  "rock_sample =
     [0.0409, 0.0421, 0.0573, 0.013, 0.0183, 0.1019, 0.1054, 0.107,
      0.2302, 0.2259, 0.2373, 0.3323, 0.3827, 0.484, 0.6812, 0.7555,
      0.9522, 0.9826, 0.8871, 0.8268, 0.7561, 0.8217, 0.6967, 0.6444,
      0.6948, 0.8014, 0.6053, 0.6084, 0.8877, 0.8557, 0.5563, 0.2897,
      0.3638, 0.4786, 0.2908, 0.0899, 0.2043, 0.1707, 0.0407, 0.1286,
      0.1581, 0.2191, 0.1701, 0.0971, 0.2217, 0.2732, 0.1874, 0.1062,
      0.0665, 0.0405, 0.0113, 0.0028, 0.0036, 0.0105, 0.012, 0.0087,
      0.0061, 0.0061, 0.003, 0.0078]"

definition mine_sample :: "real list" where
  "mine_sample =
     [0.0200, 0.0371, 0.0428, 0.0207, 0.0954, 0.0986, 0.1539, 0.1601,
      0.3109, 0.2111, 0.1609, 0.1582, 0.2238, 0.0645, 0.0660, 0.2273,
      0.3100, 0.2999, 0.5078, 0.4797, 0.5783, 0.5071, 0.4328, 0.5550,
      0.6711, 0.6415, 0.7104, 0.8080, 0.6791, 0.3857, 0.1307, 0.2604,
      0.5121, 0.7547, 0.8537, 0.8507, 0.6692, 0.6097, 0.4943, 0.2744,
      0.0510, 0.2834, 0.2825, 0.4256, 0.2641, 0.1386, 0.1051, 0.1343,
      0.0383, 0.0324, 0.0232, 0.0027, 0.0065, 0.0159, 0.0072, 0.0167,
      0.0180, 0.0084, 0.0090, 0.0032]"

text \<open>The message quotes the two names: \<open>CHR 0x22\<close> is the double quote.\<close>

definition invalid_sample_type :: response where
  "invalid_sample_type =
     (Error_body ''Invalid sample type''
        (Text (''Use '' @ [CHR 0x22] @ ''rock'' @ [CHR 0x22] @ '' or '' @ [CHR 0x22] @ ''mine'' @ [CHR 0x22])),
      400)"

definition get_sample :: "(pystr \<Rightarrow> pystr) \<Rightarrow> pystr \<Rightarrow> response" where
  "get_sample lower sample_type =
     (if lower sample_type = code_points ''rock'' then (Sample_body ''rock'' rock_sample ''R'', 200)
      else if lower sample_type = code_points ''mine'' then (Sample_body ''mine'' mine_sample ''M'', 200)
      else invalid_sample_type)"

subsection \<open>The process\<close>

text \<open>
  A request routed to one of the five handlers, with what the handler reads from outside
  its arguments: the outcome of \<open>render_template\<close> for \<open>home\<close>, the outcome of
  \<open>request.get_json()\<close> for \<open>predict\<close>.
\<close>

datatype request =
    Home "exn + string"
  | Predict "exn + json"
  | Stats
  | Sample pystr
  | Health

definition dispatch ::
  "(string \<Rightarrow> pyfloat option) \<Rightarrow> (pystr \<Rightarrow> pystr) \<Rightarrow> model option \<Rightarrow> request \<Rightarrow> response" where
  "dispatch str2f lower mdl req =
     (case req of
        Home rendered \<Rightarrow> home rendered
      | Predict get_json \<Rightarrow> predict str2f mdl get_json
      | Stats \<Rightarrow> get_stats
      | Sample sample_type \<Rightarrow> get_sample lower sample_type
      | Health \<Rightarrow> health_check mdl)"

text \<open>
  The state of the process is the global \<open>model\<close>. Only the startup code assigns it:
  no handler declares it \<open>global\<close>, so a handler reads it and leaves it as it was.
  \<open>step\<close> serves one request, \<open>serve\<close> a sequence of them, threading the state.
\<close>

definition step ::
  "(string \<Rightarrow> pyfloat option) \<Rightarrow> (pystr \<Rightarrow> pystr) \<Rightarrow> model option \<Rightarrow> request
     \<Rightarrow> response \<times> model option" where
  "step str2f lower mdl req = (dispatch str2f lower mdl req, mdl)"

fun serve ::
  "(string \<Rightarrow> pyfloat option) \<Rightarrow> (pystr \<Rightarrow> pystr) \<Rightarrow> model option \<Rightarrow> request list
     \<Rightarrow> response list \<times> model option" where
  "serve str2f lower mdl [] = ([], mdl)"
| "serve str2f lower mdl (req # reqs) =
     (case step str2f lower mdl req of
        (resp, mdl') \<Rightarrow>
          (case serve str2f lower mdl' reqs of (resps, mdl'') \<Rightarrow> (resp # resps, mdl'')))"

section \<open>Properties\<close>

subsection \<open>Auxiliary facts\<close>

lemma dict_get_None_iff: "dict_get kvs k = None \<longleftrightarrow> k \<notin> fst ` set kvs"
  by (simp add: dict_get_def map_of_eq_None_iff)

lemma dict_get_Some_nonempty: "dict_get kvs k = Some v \<Longrightarrow> kvs \<noteq> []"
  by (auto simp: dict_get_def)

lemma predict_try_absent:
  "dict_get kvs ''features'' = None \<Longrightarrow>
   predict_try str2f mdl (Inr (JObj kvs)) = Inr missing_input"
  by (simp add: predict_try_def sum_bind_def)

lemma predict_try_present:
  assumes "dict_get kvs ''features'' = Some v"
  shows "predict_try str2f mdl (Inr (JObj kvs)) =
     sum_bind (py_len v) (\<lambda>n.
       if n \<noteq> 60 then Inr (invalid_length n)
       else sum_bind (asarray str2f v) (\<lambda>input_array.
         case mdl of None \<Rightarrow> Inr model_unavailable
         | Some m \<Rightarrow> infer m (reshape_row input_array)))"
  using assms dict_get_Some_nonempty [OF assms]
  by (simp add: predict_try_def sum_bind_def)

lemma to_float_scalar:
  "to_float str2f x = Inr f \<Longrightarrow> shape x = Some [] \<and> leaves x = [x]"
  by (cases x) simp_all

lemma to_floats_scalars:
  "to_floats str2f xs = Inr a \<Longrightarrow> list_all (\<lambda>y. shape y = Some []) xs \<and> concat (map leaves xs) = xs"
proof (induction xs arbitrary: a)
  case Nil
  then show ?case by simp
next
  case (Cons x xs)
  from Cons.prems obtain f fs where f: "to_float str2f x = Inr f" and fs: "to_floats str2f xs = Inr fs"
    by (auto simp: sum_bind_def split: sum.splits)
  from to_float_scalar [OF f] Cons.IH [OF fs] show ?case by simp
qed

lemma asarray_scalars:
  assumes "to_floats str2f xs = Inr a"
  shows "asarray str2f (JArr xs) = Inr a"
proof (cases xs)
  case Nil
  with assms show ?thesis by (simp add: asarray_def)
next
  case (Cons y ys)
  from to_floats_scalars [OF assms] Cons
  have "shape (JArr xs) = Some [Suc (length ys)]" and "concat (map leaves xs) = xs"
    by simp_all
  with assms show ?thesis by (simp add: asarray_def)
qed

lemma to_floats_first_failure:
  "to_floats str2f ys = Inr a \<Longrightarrow> to_float str2f x = Inl e \<Longrightarrow> to_floats str2f (ys @ x # zs) = Inl e"
proof (induction ys arbitrary: a)
  case Nil
  then show ?case by (simp add: sum_bind_def)
next
  case (Cons y ys)
  from Cons.prems(1) obtain f fs where f: "to_float str2f y = Inr f" and fs: "to_floats str2f ys = Inr fs"
    by (auto simp: sum_bind_def split: sum.splits)
  from Cons.IH [OF fs Cons.prems(2)] f show ?case by (simp add: sum_bind_def)
qed

lemma asarray_bad_string:
  assumes ys: "to_floats str2f ys = Inr a" and s: "str2f s = None"
  shows "asarray str2f (JArr (ys @ JStr s # zs)) = Inl ValueError"
proof (cases "shape (JArr (ys @ JStr s # zs))")
  case None
  then show ?thesis by (simp add: asarray_def)
next
  case (Some d)
  have "to_float str2f (JStr s) = Inl ValueError" using s by simp
  from to_floats_first_failure [OF ys this]
  have "to_floats str2f (ys @ JStr s # concat (map leaves zs)) = Inl ValueError" .
  moreover have "leaves (JArr (ys @ JStr s # zs)) = ys @ JStr s # concat (map leaves zs)"
    using to_floats_scalars [OF ys] by simp
  ultimately show ?thesis using Some by (simp add: asarray_def)
qed

lemma to_floats_replicate:
  "to_float str2f x = Inr f \<Longrightarrow> to_floats str2f (replicate n x) = Inr (replicate n f)"
  by (induction n) (simp_all add: sum_bind_def)

lemma asarray_objects:
  "asarray str2f (JArr (replicate (Suc n) (JObj kvs))) = Inl TypeError"
proof -
  have "shape (JArr (replicate (Suc n) (JObj kvs))) = Some [Suc n]"
    by (simp add: list_all_iff)
  moreover have "concat (map leaves (replicate n (JObj kvs))) = replicate n (JObj kvs)"
    by (induction n) simp_all
  ultimately show ?thesis by (simp add: asarray_def sum_bind_def)
qed

lemma infer_success:
  assumes "model_predict m X = Inr (p # ps)"
    and "model_predict_proba m X = Inr ((p0 # p1 # row) # rows)"
  shows "infer m X = Inr (Prediction_body (make_result p (Times100 p1) (Times100 p0)), 200)"
  using assms by (simp add: infer_def sum_bind_def getitem_def)

lemma infer_result:
  assumes "infer m X = Inr resp"
  shows "\<exists>p ps row rows. model_predict m X = Inr (p # ps) \<and>
           model_predict_proba m X = Inr (row # rows) \<and> 2 \<le> length row \<and>
           resp = (Prediction_body (make_result p (Times100 (row ! 1)) (Times100 (row ! 0))), 200)"
proof -
  from assms obtain prediction proba row p1 p0 p where
    a: "model_predict m X = Inr prediction" and b: "model_predict_proba m X = Inr proba"
    and c: "getitem proba 0 = Inr row" and d: "getitem row 1 = Inr p1"
    and e: "getitem row 0 = Inr p0" and f: "getitem prediction 0 = Inr p"
    and r: "resp = (Prediction_body (make_result p (Times100 p1) (Times100 p0)), 200)"
    by (auto simp: infer_def sum_bind_def split: sum.splits)
  from c obtain rows where proba: "proba = row # rows"
    by (cases proba) (auto simp: getitem_def)
  from f obtain ps where prediction: "prediction = p # ps"
    by (cases prediction) (auto simp: getitem_def)
  from d e have "2 \<le> length row" "p1 = row ! 1" "p0 = row ! 0"
    by (auto simp: getitem_def split: if_splits)
  with a b proba prediction r show ?thesis by auto
qed

lemma except_not_prediction: "except e \<noteq> (Prediction_body r, st)"
  by (simp add: except_def non_numeric_input_def prediction_failed_def)

lemma predict_try_prediction:
  assumes "predict_try str2f mdl get_json = Inr (Prediction_body r, st)"
  shows "\<exists>m a. mdl = Some m \<and> infer m [a] = Inr (Prediction_body r, st)"
  using assms
  by (auto simp: predict_try_def sum_bind_def missing_input_def invalid_length_def
      model_unavailable_def reshape_row_def split: if_splits sum.splits option.splits)

lemma predict_success:
  assumes "dict_get kvs ''features'' = Some (JArr xs)" and "length xs = 60"
    and "to_floats str2f xs = Inr a"
    and "model_predict m [a] = Inr (p # ps)"
    and "model_predict_proba m [a] = Inr ((p0 # p1 # row) # rows)"
  shows "predict str2f (Some m) (Inr (JObj kvs)) =
    (Prediction_body (make_result p (Times100 p1) (Times100 p0)), 200)"
  using assms(1,2) asarray_scalars [OF assms(3)] infer_success [OF assms(4,5)]
  by (simp add: predict_def predict_try_present sum_bind_def reshape_row_def)

lemma serve_dispatch:
  "serve str2f lower mdl reqs = (map (dispatch str2f lower mdl) reqs, mdl)"
  by (induction reqs) (simp_all add: step_def)

lemma code_points_rock: "code_points ''rock'' = [114, 111, 99, 107]"
  by (simp add: code_points_def)

lemma code_points_mine: "code_points ''mine'' = [109, 105, 110, 101]"
  by (simp add: code_points_def)

subsection \<open>Validation order of \<open>predict\<close>\<close>




text \<open>
  Claim C4. When \<open>features\<close> is a list whose length is not 60, the answer is the error
  \<open>Invalid input length\<close> with status 400, and its message reads
  \<open>Expected 60 features, got n\<close> with \<open>n\<close> the decimal length of the list. The
  answer is an error body, so no prediction result is produced, with or without a model.
\<close>

theorem predict_invalid_length:
  assumes "dict_get kvs ''features'' = Some (JArr xs)" and "length xs \<noteq> 60"
  shows "predict str2f mdl (Inr (JObj kvs)) =
    (Error_body ''Invalid input length''
       (Text (''Expected 60 features, got '' @ str_nat (length xs))), 400)"
  using assms by (simp add: predict_def predict_try_present sum_bind_def invalid_length_def)

theorem predict_invalid_length_witness:
  "predict Map.empty None (Inr (JObj [(''features'', JArr [])])) =
     (Error_body ''Invalid input length'' (Text ''Expected 60 features, got 0''), 400) \<and>
   predict Map.empty None
     (Inr (JObj [(''features'', JArr [JFloat (Fin 0.1), JFloat (Fin 0.2), JFloat (Fin 0.3)])])) =
     (Error_body ''Invalid input length'' (Text ''Expected 60 features, got 3''), 400) \<and>
   predict Map.empty None (Inr (JObj [(''features'', JArr (replicate 61 (JInt 1)))])) =
     (Error_body ''Invalid input length'' (Text ''Expected 60 features, got 61''), 400)"
  using predict_invalid_length [of "[(''features'', JArr [])]" "[]" Map.empty None]
    predict_invalid_length [of "[(''features'', JArr [JFloat (Fin 0.1), JFloat (Fin 0.2), JFloat (Fin 0.3)])]"
       "[JFloat (Fin 0.1), JFloat (Fin 0.2), JFloat (Fin 0.3)]" Map.empty None]
    predict_invalid_length [of "[(''features'', JArr (replicate 61 (JInt 1)))]" "replicate 61 (JInt 1)"
       Map.empty None]
  by (simp add: dict_get_def str_nat.simps digit_def)

text \<open>
  Claim C9. When the key \<open>features\<close> is present but its value has no length (null, a
  boolean or a number), \<open>len\<close> raises \<open>TypeError\<close>. That is not a \<open>ValueError\<close>, so
  the generic handler answers: \<open>Prediction failed\<close> with status 500, and none of the
  three status-400 validation answers.
\<close>

theorem predict_unsized_features:
  assumes "dict_get kvs ''features'' = Some v"
    and "v = JNull \<or> v = JBool b \<or> v = JInt i \<or> v = JFloat f"
  shows "predict str2f mdl (Inr (JObj kvs)) =
    (Error_body ''Prediction failed'' (Str_of_exn TypeError), 500)"
  using assms
  by (auto simp: predict_def predict_try_present sum_bind_def except_def prediction_failed_def)

theorem predict_unsized_features_witness:
  "predict Map.empty None (Inr (JObj [(''features'', JInt 5)])) =
     (Error_body ''Prediction failed'' (Str_of_exn TypeError), 500) \<and>
   predict Map.empty None (Inr (JObj [(''features'', JNull)])) =
     (Error_body ''Prediction failed'' (Str_of_exn TypeError), 500) \<and>
   predict Map.empty None (Inr (JObj [(''features'', JBool True)])) =
     (Error_body ''Prediction failed'' (Str_of_exn TypeError), 500) \<and>
   predict Map.empty None (Inr (JObj [(''features'', JFloat (Fin 0.5))])) =
     (Error_body ''Prediction failed'' (Str_of_exn TypeError), 500)"
  using predict_unsized_features [of "[(''features'', JInt 5)]" "JInt 5" True 5 NaN Map.empty None]
    predict_unsized_features [of "[(''features'', JNull)]" JNull True 5 NaN Map.empty None]
    predict_unsized_features [of "[(''features'', JBool True)]" "JBool True" True 5 NaN Map.empty None]
    predict_unsized_features [of "[(''features'', JFloat (Fin 0.5))]" "JFloat (Fin 0.5)" True 5
       "Fin 0.5" Map.empty None]
  by (simp add: dict_get_def)

subsection \<open>The numeric check\<close>

text \<open>
  Claim C2, as amended. The numeric check is the conversion \<open>np.asarray(features,
  dtype=float)\<close>, which converts the elements in order. When \<open>features\<close> is a list of
  60 elements, every element before some string converts, and the runtime does not read
  that string as a float literal, the answer is \<open>Invalid input values\<close> with status
  400, for every model and also without one.
\<close>

theorem predict_non_numeric_string:
  assumes "dict_get kvs ''features'' = Some (JArr (ys @ JStr s # zs))"
    and "length (ys @ JStr s # zs) = 60"
    and "to_floats str2f ys = Inr a"
    and "str2f s = None"
  shows "predict str2f mdl (Inr (JObj kvs)) =
    (Error_body ''Invalid input values'' (Text ''All features must be numeric values''), 400)"
  using assms(1,2) asarray_bad_string [OF assms(3,4), of zs]
  by (simp add: predict_def predict_try_present sum_bind_def except_def non_numeric_input_def)

theorem predict_non_numeric_string_witness:
  "predict Map.empty None (Inr (JObj [(''features'', JArr (replicate 60 (JStr ''a'')))])) =
    (Error_body ''Invalid input values'' (Text ''All features must be numeric values''), 400)"
proof -
  have split: "replicate 60 (JStr ''a'') = [] @ JStr ''a'' # replicate 59 (JStr ''a'')"
    by (simp add: numeral_eq_Suc)
  show ?thesis
    using predict_non_numeric_string [of "[(''features'', JArr (replicate 60 (JStr ''a'')))]"
        "[]" "''a''" "replicate 59 (JStr ''a'')" Map.empty "[]" None]
    unfolding split [symmetric] by (simp add: dict_get_def)
qed

text \<open>
  Claim C2 as stated fails: nothing tests that a converted value is finite. Sixty
  infinite values (the literal \<open>1e999\<close> decodes to infinity) or sixty NaN values pass
  the conversion, and with no model loaded the answer is \<open>Model not loaded\<close> with
  status 500, not the status-400 answer of a non-numeric string.
\<close>

theorem predict_infinite_element_counterexample:
  "predict Map.empty None (Inr (JObj [(''features'', JArr (replicate 60 (JFloat PInf)))])) =
     (Error_body ''Model not loaded''
        (Text ''Please ensure sonar_model.pkl is in the correct directory''), 500) \<and>
   predict Map.empty None (Inr (JObj [(''features'', JArr (replicate 60 (JFloat NaN)))])) =
     (Error_body ''Model not loaded''
        (Text ''Please ensure sonar_model.pkl is in the correct directory''), 500)"
proof -
  have "to_floats Map.empty (replicate 60 (JFloat PInf)) = Inr (replicate 60 PInf)"
    and "to_floats Map.empty (replicate 60 (JFloat NaN)) = Inr (replicate 60 NaN)"
    by (rule to_floats_replicate, simp)+
  then show ?thesis
    by (simp add: predict_def predict_try_present dict_get_def sum_bind_def asarray_scalars
        model_unavailable_def)
qed

text \<open>
  Claim C3, as amended. With no model loaded: a body without \<open>features\<close>, a list of
  the wrong length and a list of 60 elements whose first failing element is a string
  that is no float literal still get their status-400 answers; a list of 60 elements
  that all convert gets \<open>Model not loaded\<close> with status 500. So the test for the model
  comes after the three checks. It comes before inference: with a model \<open>m\<close> loaded
  the same request is answered by \<open>infer m\<close> on the converted row.
\<close>

theorem predict_model_absent:
  "(''features'' \<notin> fst ` set kvs \<longrightarrow>
      predict str2f None (Inr (JObj kvs)) =
        (Error_body ''No features provided'' (Text ''Please provide 60 sonar readings''), 400)) \<and>
   (dict_get kvs ''features'' = Some (JArr xs) \<and> length xs \<noteq> 60 \<longrightarrow>
      predict str2f None (Inr (JObj kvs)) =
        (Error_body ''Invalid input length''
           (Text (''Expected 60 features, got '' @ str_nat (length xs))), 400)) \<and>
   (dict_get kvs ''features'' = Some (JArr (ys @ JStr s # zs)) \<and>
    length (ys @ JStr s # zs) = 60 \<and> to_floats str2f ys = Inr b \<and> str2f s = None \<longrightarrow>
      predict str2f None (Inr (JObj kvs)) =
        (Error_body ''Invalid input values'' (Text ''All features must be numeric values''), 400)) \<and>
   (dict_get kvs ''features'' = Some (JArr xs) \<and> length xs = 60 \<and> to_floats str2f xs = Inr a \<longrightarrow>
      predict str2f None (Inr (JObj kvs)) =
        (Error_body ''Model not loaded''
           (Text ''Please ensure sonar_model.pkl is in the correct directory''), 500) \<and>
      predict str2f (Some m) (Inr (JObj kvs)) =
        (case infer m [a] of Inl e \<Rightarrow> except e | Inr r \<Rightarrow> r))"
proof (intro conjI impI)
  assume "''features'' \<notin> fst ` set kvs"
  then show "predict str2f None (Inr (JObj kvs)) =
        (Error_body ''No features provided'' (Text ''Please provide 60 sonar readings''), 400)"
    by (simp add: predict_def predict_try_absent dict_get_None_iff missing_input_def)
next
  assume "dict_get kvs ''features'' = Some (JArr xs) \<and> length xs \<noteq> 60"
  then show "predict str2f None (Inr (JObj kvs)) =
        (Error_body ''Invalid input length''
           (Text (''Expected 60 features, got '' @ str_nat (length xs))), 400)"
    by (simp add: predict_def predict_try_present sum_bind_def invalid_length_def)
next
  assume h: "dict_get kvs ''features'' = Some (JArr (ys @ JStr s # zs)) \<and>
    length (ys @ JStr s # zs) = 60 \<and> to_floats str2f ys = Inr b \<and> str2f s = None"
  then have "asarray str2f (JArr (ys @ JStr s # zs)) = Inl ValueError"
    by (simp add: asarray_bad_string)
  with h show "predict str2f None (Inr (JObj kvs)) =
        (Error_body ''Invalid input values'' (Text ''All features must be numeric values''), 400)"
    by (simp add: predict_def predict_try_present sum_bind_def except_def non_numeric_input_def)
next
  assume h: "dict_get kvs ''features'' = Some (JArr xs) \<and> length xs = 60 \<and> to_floats str2f xs = Inr a"
  then have arr: "asarray str2f (JArr xs) = Inr a"
    by (simp add: asarray_scalars)
  with h show "predict str2f None (Inr (JObj kvs)) =
        (Error_body ''Model not loaded''
           (Text ''Please ensure sonar_model.pkl is in the correct directory''), 500)"
    by (simp add: predict_def predict_try_present sum_bind_def model_unavailable_def)
  from h arr show "predict str2f (Some m) (Inr (JObj kvs)) =
        (case infer m [a] of Inl e \<Rightarrow> except e | Inr r \<Rightarrow> r)"
    by (simp add: predict_def predict_try_present sum_bind_def reshape_row_def)
qed

theorem predict_model_absent_witness:
  "predict Map.empty None (Inr (JObj [])) =
     (Error_body ''No features provided'' (Text ''Please provide 60 sonar readings''), 400) \<and>
   predict Map.empty None (Inr (JObj [(''features'', JArr [JInt 1, JInt 2, JInt 3])])) =
     (Error_body ''Invalid input length'' (Text ''Expected 60 features, got 3''), 400) \<and>
   predict Map.empty None (Inr (JObj [(''features'', JArr (replicate 60 (JStr ''a'')))])) =
     (Error_body ''Invalid input values'' (Text ''All features must be numeric values''), 400) \<and>
   predict Map.empty None (Inr (JObj [(''features'', JArr (replicate 60 (JFloat (Fin 0.5))))])) =
     (Error_body ''Model not loaded''
        (Text ''Please ensure sonar_model.pkl is in the correct directory''), 500)"
proof -
  let ?m = "\<lparr> model_predict = (\<lambda>X. Inr [Str_label ''R'']),
             model_predict_proba = (\<lambda>X. Inr [[Fin 0.5, Fin 0.5]]) \<rparr>"
  have split: "replicate 60 (JStr ''a'') = [] @ JStr ''a'' # replicate 59 (JStr ''a'')"
    by (simp add: numeral_eq_Suc)
  have conv: "to_floats Map.empty (replicate 60 (JFloat (Fin 0.5))) = Inr (replicate 60 (Fin 0.5))"
    by (rule to_floats_replicate) simp
  have 1: "predict Map.empty None (Inr (JObj [])) =
     (Error_body ''No features provided'' (Text ''Please provide 60 sonar readings''), 400)"
    using predict_model_absent [where kvs = "[]" and str2f = Map.empty and xs = "[]"
        and ys = "[]" and s = "[]" and zs = "[]" and b = "[]" and a = "[]" and m = ?m]
    by simp
  have 2: "predict Map.empty None (Inr (JObj [(''features'', JArr [JInt 1, JInt 2, JInt 3])])) =
     (Error_body ''Invalid input length'' (Text ''Expected 60 features, got 3''), 400)"
    using predict_model_absent [where kvs = "[(''features'', JArr [JInt 1, JInt 2, JInt 3])]"
        and str2f = Map.empty and xs = "[JInt 1, JInt 2, JInt 3]"
        and ys = "[]" and s = "[]" and zs = "[]" and b = "[]" and a = "[]" and m = ?m]
    by (simp add: dict_get_def str_nat.simps digit_def)
  have 3: "predict Map.empty None (Inr (JObj [(''features'', JArr (replicate 60 (JStr ''a'')))])) =
     (Error_body ''Invalid input values'' (Text ''All features must be numeric values''), 400)"
    using predict_model_absent [where kvs = "[(''features'', JArr (replicate 60 (JStr ''a'')))]"
        and str2f = Map.empty and xs = "[]"
        and ys = "[]" and s = "''a''" and zs = "replicate 59 (JStr ''a'')" and b = "[]"
        and a = "[]" and m = ?m]
    unfolding split [symmetric] by (simp add: dict_get_def)
  have 4: "predict Map.empty None
      (Inr (JObj [(''features'', JArr (replicate 60 (JFloat (Fin 0.5))))])) =
     (Error_body ''Model not loaded''
        (Text ''Please ensure sonar_model.pkl is in the correct directory''), 500)"
    using predict_model_absent [where kvs = "[(''features'', JArr (replicate 60 (JFloat (Fin 0.5))))]"
        and str2f = Map.empty and xs = "replicate 60 (JFloat (Fin 0.5))"
        and ys = "[]" and s = "[]" and zs = "[]" and b = "[]"
        and a = "replicate 60 (Fin 0.5)" and m = ?m] conv
    by (simp add: dict_get_def)
  from 1 2 3 4 show ?thesis by simp
qed

text \<open>
  Claim C3 as stated fails for a non-numeric element that is not a string. With no
  model loaded, sixty JSON objects as elements make the conversion raise \<open>TypeError\<close>,
  which the generic handler answers with \<open>Prediction failed\<close> and status 500: a server
  error, not a status-400 validation answer. And sixty elements \<open>-1e999\<close>, decoded to
  minus infinity, pass the conversion and get \<open>Model not loaded\<close>, although a value
  that is not finite is not a valid feature for the specification.
\<close>

theorem predict_object_element_counterexample:
  "predict Map.empty None (Inr (JObj [(''features'', JArr (replicate 60 (JObj [])))])) =
     (Error_body ''Prediction failed'' (Str_of_exn TypeError), 500) \<and>
   predict Map.empty None (Inr (JObj [(''features'', JArr (replicate 60 (JFloat NInf)))])) =
     (Error_body ''Model not loaded''
        (Text ''Please ensure sonar_model.pkl is in the correct directory''), 500)"
proof -
  have "asarray Map.empty (JArr (replicate 60 (JObj []))) = Inl TypeError"
    using asarray_objects [of Map.empty 59 "[]"] by (simp add: numeral_eq_Suc)
  moreover have "to_floats Map.empty (replicate 60 (JFloat NInf)) = Inr (replicate 60 NInf)"
    by (rule to_floats_replicate) simp
  ultimately show ?thesis
    by (simp add: predict_def predict_try_present dict_get_def sum_bind_def asarray_scalars
        model_unavailable_def except_def prediction_failed_def)
qed

subsection \<open>The prediction result\<close>

text \<open>
  Claim C10. Whenever \<open>predict\<close> answers with a prediction result, a model is loaded
  and returned a first class \<open>p\<close> and a first probability row with at least two
  entries; the status is 200; \<open>prediction_label\<close> is \<open>Rock\<close> when \<open>p\<close> is the string
  \<open>R\<close> and \<open>Mine\<close> for every other class value; \<open>confidence.rock\<close> is computed from
  entry 1 of the row and \<open>confidence.mine\<close> from entry 0, each as
  \<open>round(float(p) * 100, 2)\<close>; and the message names the same label as
  \<open>prediction_label\<close>.
\<close>

theorem predict_label_and_confidence:
  assumes "predict str2f mdl get_json = (Prediction_body r, st)"
  shows "\<exists>m X p ps row rows. mdl = Some m \<and> model_predict m X = Inr (p # ps) \<and>
     model_predict_proba m X = Inr (row # rows) \<and> 2 \<le> length row \<and> st = 200 \<and>
     prediction r = str_label p \<and>
     prediction_label r = (if p = Str_label ''R'' then ''Rock'' else ''Mine'') \<and>
     confidence_rock r = Round2 (Times100 (row ! 1)) \<and>
     confidence_mine r = Round2 (Times100 (row ! 0)) \<and>
     message r = ''The object is a '' @ prediction_label r"
proof -
  from assms have "predict_try str2f mdl get_json = Inr (Prediction_body r, st)"
    by (auto simp: predict_def except_not_prediction split: sum.splits)
  from predict_try_prediction [OF this] obtain m a where
    m: "mdl = Some m" and i: "infer m [a] = Inr (Prediction_body r, st)" by blast
  from infer_result [OF i] obtain p ps row rows where
    "model_predict m [a] = Inr (p # ps)" "model_predict_proba m [a] = Inr (row # rows)"
    "2 \<le> length row"
    "r = make_result p (Times100 (row ! 1)) (Times100 (row ! 0))" "st = 200"
    by auto
  with m show ?thesis
    by (intro exI [of _ m] exI [of _ "[a]"] exI [of _ p] exI [of _ ps] exI [of _ row] exI [of _ rows])
       (simp add: make_result_def is_R_def)
qed

theorem predict_label_and_confidence_witness:
  "predict Map.empty
     (Some \<lparr> model_predict = (\<lambda>X. Inr [Int_label 1]),
             model_predict_proba = (\<lambda>X. Inr [[Fin 0.25, Fin 0.75]]) \<rparr>)
     (Inr (JObj [(''features'', JArr (replicate 60 (JFloat (Fin 0.5))))]))
   = (Prediction_body \<lparr> prediction = ''1'', prediction_label = ''Mine'',
        confidence_rock = Round2 (Times100 (Fin 0.75)),
        confidence_mine = Round2 (Times100 (Fin 0.25)),
        message = ''The object is a Mine'' \<rparr>, 200)
   \<and> (\<exists>m X p ps row rows.
        Some \<lparr> model_predict = (\<lambda>X. Inr [Int_label 1]),
               model_predict_proba = (\<lambda>X. Inr [[Fin 0.25, Fin 0.75]]) \<rparr> = Some m \<and>
        model_predict m X = Inr (p # ps) \<and> model_predict_proba m X = Inr (row # rows) \<and>
        2 \<le> length row \<and> (200::nat) = 200 \<and>
        ''1'' = str_label p \<and>
        ''Mine'' = (if p = Str_label ''R'' then ''Rock'' else ''Mine'') \<and>
        Round2 (Times100 (Fin 0.75)) = Round2 (Times100 (row ! 1)) \<and>
        Round2 (Times100 (Fin 0.25)) = Round2 (Times100 (row ! 0)))"
proof -
  let ?m = "\<lparr> model_predict = (\<lambda>X. Inr [Int_label 1]),
             model_predict_proba = (\<lambda>X. Inr [[Fin 0.25, Fin 0.75]]) \<rparr>"
  let ?r = "\<lparr> prediction = ''1'', prediction_label = ''Mine'',
        confidence_rock = Round2 (Times100 (Fin 0.75)),
        confidence_mine = Round2 (Times100 (Fin 0.25)),
        message = ''The object is a Mine'' \<rparr>"
  have conv: "to_floats Map.empty (replicate 60 (JFloat (Fin 0.5))) = Inr (replicate 60 (Fin 0.5))"
    by (rule to_floats_replicate) simp
  have run: "predict Map.empty (Some ?m)
      (Inr (JObj [(''features'', JArr (replicate 60 (JFloat (Fin 0.5))))])) = (Prediction_body ?r, 200)"
    using predict_success [of "[(''features'', JArr (replicate 60 (JFloat (Fin 0.5))))]"
        "replicate 60 (JFloat (Fin 0.5))" Map.empty "replicate 60 (Fin 0.5)" ?m
        "Int_label 1" "[]" "Fin 0.25" "Fin 0.75" "[]" "[]"] conv
    by (simp add: dict_get_def make_result_def str_label_def str_int_def str_nat.simps digit_def
        is_R_def)
  from predict_label_and_confidence [OF run] run show ?thesis by simp
qed

subsection \<open>\<open>get_sample\<close>\<close>



text \<open>
  Claim C7. The two vectors that \<open>get_sample\<close> returns have 60 elements each, and
  every element lies between 0 and 1. \<open>get_sample\<close> returns the first with the label
  \<open>R\<close> for the argument \<open>rock\<close> and the second with the label \<open>M\<close> for \<open>mine\<close>
  (\<open>lower\<close> leaves a lower-case ASCII word as it is), and never any other vector.
\<close>

theorem samples_well_formed:
  "length rock_sample = 60 \<and> list_all (\<lambda>x. 0 \<le> x \<and> x \<le> 1) rock_sample \<and>
   length mine_sample = 60 \<and> list_all (\<lambda>x. 0 \<le> x \<and> x \<le> 1) mine_sample \<and>
   (lower (code_points ''rock'') = code_points ''rock'' \<longrightarrow>
      get_sample lower (code_points ''rock'') = (Sample_body ''rock'' rock_sample ''R'', 200)) \<and>
   (lower (code_points ''mine'') = code_points ''mine'' \<longrightarrow>
      get_sample lower (code_points ''mine'') = (Sample_body ''mine'' mine_sample ''M'', 200)) \<and>
   (get_sample lower k = (Sample_body ''rock'' rock_sample ''R'', 200) \<or>
    get_sample lower k = (Sample_body ''mine'' mine_sample ''M'', 200) \<or>
    get_sample lower k = invalid_sample_type)"
  by (simp add: rock_sample_def mine_sample_def get_sample_def code_points_rock code_points_mine)

theorem samples_well_formed_witness:
  "length rock_sample = 60 \<and> list_all (\<lambda>x. 0 \<le> x \<and> x \<le> 1) rock_sample \<and>
   length mine_sample = 60 \<and> list_all (\<lambda>x. 0 \<le> x \<and> x \<le> 1) mine_sample \<and>
   get_sample (map (\<lambda>c. if 65 \<le> c \<and> c \<le> 90 then c + 32 else c)) (code_points ''rock'')
     = (Sample_body ''rock'' rock_sample ''R'', 200) \<and>
   get_sample (map (\<lambda>c. if 65 \<le> c \<and> c \<le> 90 then c + 32 else c)) (code_points ''mine'')
     = (Sample_body ''mine'' mine_sample ''M'', 200)"
  using samples_well_formed
    [of "map (\<lambda>c::nat. if 65 \<le> c \<and> c \<le> 90 then c + 32 else c)" "code_points ''rock''"]
  by (simp add: code_points_rock code_points_mine)

subsection \<open>\<open>health_check\<close> over the life of the process\<close>

text \<open>
  Claim C8, as amended. Let the process start with the outcome \<open>loaded\<close> of opening
  and unpickling the file, and serve any sequence of requests. The global \<open>model\<close> is
  at the end what it was at the start, and every \<open>health_check\<close> among the requests is
  answered with status 200, the status field \<open>healthy\<close>, the version \<open>1.0.0\<close> and the
  same \<open>model_loaded\<close>: true exactly when loading succeeded and unpickled an object
  other than \<open>None\<close>. So \<open>health_check\<close> never fails, whatever was served before it.
\<close>

theorem health_check_constant:
  "snd (serve str2f lower (load_model loaded) reqs) = load_model loaded \<and>
   (i < length reqs \<and> reqs ! i = Health \<longrightarrow>
      fst (serve str2f lower (load_model loaded) reqs) ! i =
        (Health_body ''healthy'' (\<exists>m. loaded = Inr (Some m)) ''1.0.0'', 200))"
proof -
  have "(load_model loaded \<noteq> None) = (\<exists>m. loaded = Inr (Some m))"
    by (cases loaded) (auto simp: load_model_def)
  then show ?thesis
    by (simp add: serve_dispatch dispatch_def health_check_def)
qed

text \<open>
  The witness starts with a loaded classifier and serves a health check, a prediction
  request with an empty object, a sample request, a statistics request and a second
  health check; the second health check (index 4) still reports the model as loaded.
\<close>

theorem health_check_constant_witness:
  "fst (serve Map.empty (\<lambda>s. s)
     (load_model (Inr (Some \<lparr> model_predict = (\<lambda>X. Inr [Str_label ''R'']),
                              model_predict_proba = (\<lambda>X. Inr [[Fin 0.5, Fin 0.5]]) \<rparr>)))
     [Health, Predict (Inr (JObj [])), Sample [114, 111, 99, 107], Stats, Health]) ! 4
   = (Health_body ''healthy'' True ''1.0.0'', 200)"
  using health_check_constant [of Map.empty "\<lambda>s. s"
      "Inr (Some \<lparr> model_predict = (\<lambda>X. Inr [Str_label ''R'']),
                   model_predict_proba = (\<lambda>X. Inr [[Fin 0.5, Fin 0.5]]) \<rparr>)"
      "[Health, Predict (Inr (JObj [])), Sample [114, 111, 99, 107], Stats, Health]" 4]
  by simp

text \<open>
  Claim C8 as stated fails when the file is a valid pickle of \<open>None\<close>: loading
  succeeds, the global \<open>model\<close> is \<open>None\<close>, and \<open>model_loaded\<close> is false.
\<close>

theorem health_check_pickled_none_counterexample:
  "health_check (load_model (Inr None)) = (Health_body ''healthy'' False ''1.0.0'', 200)"
  by (simp add: health_check_def load_model_def)

end
